theory Spec2Isabelle
  imports Complex_Main "HOL-Library.Word"
begin

section \<open>The audio-reactive video compositor of waver\<close>

text \<open>
  A shallow embedding of \<^verbatim>\<open>src/components/VisualizerCanvas.tsx\<close> and of
  \<^verbatim>\<open>generateVideoMetadata\<close> in \<^verbatim>\<open>src/services/geminiService.ts\<close>.

  JavaScript numbers are modelled as exact reals: every finite value is a \<^typ>\<open>real\<close> and
  the arithmetic does not round. The two places where the code can meet \<^verbatim>\<open>NaN\<close> are
  modelled with \<^typ>\<open>'a option\<close>: the media element's \<^verbatim>\<open>duration\<close> before the
  metadata is known, and a read of \<^verbatim>\<open>dataArray[i]\<close> past the end of the typed array
  (\<^verbatim>\<open>undefined\<close>, which arithmetic turns into \<^verbatim>\<open>NaN\<close>). Infinite values are
  outside the model.
\<close>

subsection \<open>Values of the component\<close>

type_synonym byte = "8 word"

datatype js_error = Error string | TypeError string | SyntaxError string

text \<open>An \<^verbatim>\<open>ImageBitmap\<close>: its size in pixels and a name for its pixel content.\<close>

record bitmap =
  width :: nat
  height :: nat
  content :: nat

datatype font_family = sans | serif | mono

text \<open>The fields of \<^verbatim>\<open>VideoConfig\<close> that \<^verbatim>\<open>drawFrame\<close> reads.\<close>

record video_config =
  title :: string
  subtitle :: string
  fontFamily :: font_family

definition WIDTH :: real where
  "WIDTH = 1280"

definition HEIGHT :: real where
  "HEIGHT = 720"

subsection \<open>Frame timing (lines 86 to 105 of drawFrame)\<close>

text \<open>
  \<^verbatim>\<open>duration > 0 ? duration / totalImages : 5\<close>. The duration is \<open>None\<close> when it is
  \<^verbatim>\<open>NaN\<close>; every comparison with \<^verbatim>\<open>NaN\<close> is false, so the fallback is taken.
\<close>

definition slideDuration :: "real option \<Rightarrow> nat \<Rightarrow> real" where
  "slideDuration duration totalImages =
     (case duration of
        Some d \<Rightarrow> if d > 0 then d / real totalImages else 5
      | None \<Rightarrow> 5)"

text \<open>\<^verbatim>\<open>Math.min(Math.floor(currentTime / slideDuration), totalImages - 1)\<close>\<close>

definition currentIndex :: "real \<Rightarrow> real option \<Rightarrow> nat \<Rightarrow> int" where
  "currentIndex currentTime duration totalImages =
     min \<lfloor>currentTime / slideDuration duration totalImages\<rfloor> (int totalImages - 1)"

text \<open>The remainder operator \<^verbatim>\<open>%\<close> of JavaScript on integers: the sign of the dividend.\<close>

definition js_rem :: "int \<Rightarrow> int \<Rightarrow> int" where
  "js_rem a b = sgn a * (\<bar>a\<bar> mod \<bar>b\<bar>)"

text \<open>\<^verbatim>\<open>(currentIndex + 1) % totalImages\<close>\<close>

definition nextIndex :: "real \<Rightarrow> real option \<Rightarrow> nat \<Rightarrow> int" where
  "nextIndex currentTime duration totalImages =
     js_rem (currentIndex currentTime duration totalImages + 1) (int totalImages)"

text \<open>\<^verbatim>\<open>currentTime - (currentIndex * slideDuration)\<close>\<close>

definition timeInSlide :: "real \<Rightarrow> real option \<Rightarrow> nat \<Rightarrow> real" where
  "timeInSlide currentTime duration totalImages =
     currentTime
       - real_of_int (currentIndex currentTime duration totalImages)
           * slideDuration duration totalImages"

definition fadeDuration :: real where
  "fadeDuration = 1"

text \<open>The condition of line 104: the next image is drawn over the current one.\<close>

definition crossfading :: "real \<Rightarrow> real option \<Rightarrow> nat \<Rightarrow> bool" where
  "crossfading currentTime duration totalImages \<longleftrightarrow>
     totalImages > 1 \<and>
     timeInSlide currentTime duration totalImages
       > slideDuration duration totalImages - fadeDuration"

text \<open>Line 105: the value assigned to \<^verbatim>\<open>ctx.globalAlpha\<close> for the next image.\<close>

definition fadeProgress :: "real \<Rightarrow> real option \<Rightarrow> nat \<Rightarrow> real" where
  "fadeProgress currentTime duration totalImages =
     (timeInSlide currentTime duration totalImages
        - (slideDuration duration totalImages - fadeDuration)) / fadeDuration"


text \<open>
  Line 174 of animate: \<^verbatim>\<open>audioRef.current.duration || 1\<close>. Both 0 and \<^verbatim>\<open>NaN\<close> are
  falsy, so the preview tick replaces them by 1.
\<close>

definition animate_duration :: "real option \<Rightarrow> real option" where
  "animate_duration d =
     (case d of None \<Rightarrow> Some 1 | Some x \<Rightarrow> if x = 0 then Some 1 else Some x)"

subsection \<open>The 2D rendering context\<close>

text \<open>
  The part of a \<^verbatim>\<open>CanvasRenderingContext2D\<close> that drawFrame touches: four attributes,
  the current path and the surface. The surface is the list of paint operations applied so
  far, each with the attributes that decide its pixels; a freshly cleared surface is the
  empty list. The attributes drawFrame never assigns (transform, shadows, compositing
  mode, text baseline) keep their values and are left out.
\<close>

datatype style = Color string | LinearGradient real real real real "(real \<times> string) list"

datatype shape = RoundRect real real real real real

text \<open>
  \<open>DrawImage alpha image dx dy dw dh\<close>, \<open>FillRect alpha fillStyle x y w h\<close>,
  \<open>FillText alpha fillStyle font textAlign text x y\<close>, \<open>Fill alpha fillStyle path\<close>.
\<close>

datatype draw_op =
    DrawImage real bitmap real real real real
  | FillRect real style real real real real
  | FillText real style string string string real real
  | Fill real style "shape list"

record context2d =
  globalAlpha :: real
  fillStyle :: style
  textAlign :: string
  font :: string
  path :: "shape list"
  painted :: "draw_op list"

text \<open>
  The setter of \<^verbatim>\<open>globalAlpha\<close> ignores a value outside \<open>[0, 1]\<close> (canvas
  specification); the other setters are only given valid constants.
\<close>

definition set_globalAlpha :: "real \<Rightarrow> context2d \<Rightarrow> context2d" where
  "set_globalAlpha v c = (if 0 \<le> v \<and> v \<le> 1 then c\<lparr>globalAlpha := v\<rparr> else c)"

definition paint :: "draw_op \<Rightarrow> context2d \<Rightarrow> context2d" where
  "paint op c = c\<lparr>painted := painted c @ [op]\<rparr>"

definition drawImage :: "bitmap \<Rightarrow> real \<Rightarrow> real \<Rightarrow> real \<Rightarrow> real \<Rightarrow> context2d \<Rightarrow> context2d" where
  "drawImage img dx dy dw dh c = paint (DrawImage (globalAlpha c) img dx dy dw dh) c"

definition fillRect :: "real \<Rightarrow> real \<Rightarrow> real \<Rightarrow> real \<Rightarrow> context2d \<Rightarrow> context2d" where
  "fillRect x y w h c = paint (FillRect (globalAlpha c) (fillStyle c) x y w h) c"

definition fillText :: "string \<Rightarrow> real \<Rightarrow> real \<Rightarrow> context2d \<Rightarrow> context2d" where
  "fillText s x y c =
     paint (FillText (globalAlpha c) (fillStyle c) (font c) (textAlign c) s x y) c"

definition beginPath :: "context2d \<Rightarrow> context2d" where
  "beginPath c = c\<lparr>path := []\<rparr>"

text \<open>
  \<^verbatim>\<open>roundRect(x, y, w, h, radii)\<close> returns without adding a subpath when one of
  its four numbers is not finite; here \<open>y\<close> and \<open>h\<close> are the ones that can be
  \<^verbatim>\<open>NaN\<close>.
\<close>

definition roundRect :: "real \<Rightarrow> real option \<Rightarrow> real \<Rightarrow> real option \<Rightarrow> real \<Rightarrow> context2d \<Rightarrow> context2d" where
  "roundRect x y w h r c =
     (case (y, h) of
        (Some y', Some h') \<Rightarrow> c\<lparr>path := path c @ [RoundRect x y' w h' r]\<rparr>
      | _ \<Rightarrow> c)"

definition fill :: "context2d \<Rightarrow> context2d" where
  "fill c = paint (Fill (globalAlpha c) (fillStyle c) (path c)) c"

text \<open>
  The area of the bounding boxes of a filled path: an upper bound of what a
  \<^verbatim>\<open>fill()\<close> can cover. It is 0 for the empty path and for a rectangle of height 0.
\<close>

fun shape_area :: "shape \<Rightarrow> real" where
  "shape_area (RoundRect x y w h r) = \<bar>w * h\<bar>"

definition path_area :: "shape list \<Rightarrow> real" where
  "path_area shapes = sum_list (map shape_area shapes)"

subsection \<open>drawImageProp (lines 187 to 202)\<close>

text \<open>
  The rectangle \<open>(cx, cy, nw, nh)\<close> handed to \<^verbatim>\<open>ctx.drawImage\<close>. The parameters
  \<open>x\<close> and \<open>y\<close> of the source are not used by its body. The reassigned variables of the
  source are numbered here. Both call sites pass \<open>WIDTH\<close> and \<open>HEIGHT\<close>.
\<close>

definition drawImageProp_rect :: "bitmap \<Rightarrow> real \<Rightarrow> real \<Rightarrow> real \<times> real \<times> real \<times> real" where
  "drawImageProp_rect img w h =
     (let r = min (w / real (width img)) (h / real (height img));
          nw = real (width img) * r;
          nh = real (height img) * r;
          ar = 1;
          ar1 = (if nw < w then w / nw else ar);
          ar2 = (if \<bar>ar1 - 1\<bar> < 1 / 10 ^ 14 \<and> nh < h then h / nh else ar1);
          nw1 = nw * ar2;
          nh1 = nh * ar2;
          cx = (w - nw1) * 0.5;
          cy = (h - nh1) * 0.5
      in (cx, cy, nw1, nh1))"

text \<open>
  An \<^verbatim>\<open>ImageBitmap\<close> has a positive width and height. Were one of them 0, the
  divisions of the source would give an infinite or \<^verbatim>\<open>NaN\<close> rectangle, for which
  \<^verbatim>\<open>drawImage\<close> returns without drawing.
\<close>

definition drawImageProp :: "bitmap \<Rightarrow> real \<Rightarrow> real \<Rightarrow> real \<Rightarrow> real \<Rightarrow> context2d \<Rightarrow> context2d" where
  "drawImageProp img x y w h c =
     (if width img = 0 \<or> height img = 0 then c
      else case drawImageProp_rect img w h of
             (cx, cy, nw, nh) \<Rightarrow> drawImage img cx cy nw nh c)"

text \<open>The operations drawImageProp adds to the surface at a given opacity.\<close>

definition cover_ops :: "real \<Rightarrow> bitmap \<Rightarrow> draw_op list" where
  "cover_ops alpha img =
     (if width img = 0 \<or> height img = 0 then []
      else case drawImageProp_rect img WIDTH HEIGHT of
             (cx, cy, nw, nh) \<Rightarrow> [DrawImage alpha img cx cy nw nh])"


subsection \<open>drawFrame (lines 82 to 165)\<close>

text \<open>
  What the closure of drawFrame reads besides its arguments: the decoded images
  (\<^verbatim>\<open>imageBitmapsRef.current\<close>), the analyser node (\<^verbatim>\<open>analyserRef.current\<close>, here the
  byte frequency data it would deliver now, or \<open>None\<close> for \<^verbatim>\<open>null\<close>) and the
  configuration.
\<close>

record renderer =
  imageBitmaps :: "bitmap list"
  analyser :: "byte list option"
  config :: video_config

text \<open>Reading \<^verbatim>\<open>array[i]\<close>: \<open>None\<close> is \<^verbatim>\<open>undefined\<close>.\<close>

definition element :: "'a list \<Rightarrow> int \<Rightarrow> 'a option" where
  "element xs i = (if 0 \<le> i \<and> i < int (length xs) then Some (xs ! nat i) else None)"

text \<open>
  Layer 1, lines 86 to 110. Reading \<^verbatim>\<open>img.width\<close> of \<^verbatim>\<open>undefined\<close> throws a
  \<^verbatim>\<open>TypeError\<close>.
\<close>

definition drawBackground :: "bitmap list \<Rightarrow> real \<Rightarrow> real option \<Rightarrow> context2d \<Rightarrow> js_error + context2d" where
  "drawBackground imgs currentTime duration ctx =
     (let totalImages = length imgs;
          c1 = set_globalAlpha 1 ctx
      in case element imgs (currentIndex currentTime duration totalImages) of
           None \<Rightarrow> Inl (TypeError ''img is undefined'')
         | Some img \<Rightarrow>
             let c2 = drawImageProp img 0 0 WIDTH HEIGHT c1
             in if crossfading currentTime duration totalImages
                then let c3 = set_globalAlpha (fadeProgress currentTime duration totalImages) c2
                     in case element imgs (nextIndex currentTime duration totalImages) of
                          None \<Rightarrow> Inl (TypeError ''img is undefined'')
                        | Some img' \<Rightarrow>
                            Inr (set_globalAlpha 1 (drawImageProp img' 0 0 WIDTH HEIGHT c3))
                else Inr (set_globalAlpha 1 c2))"

text \<open>Layer 2, lines 113 to 118.\<close>

definition gradient :: style where
  "gradient = LinearGradient 0 0 0 HEIGHT
     [(0, ''rgba(0,0,0,0.3)''), (0.5, ''rgba(0,0,0,0)''), (1, ''rgba(0,0,0,0.7)'')]"

definition drawOverlay :: "context2d \<Rightarrow> context2d" where
  "drawOverlay c = fillRect 0 0 WIDTH HEIGHT (c\<lparr>fillStyle := gradient\<rparr>)"

text \<open>Layer 3, lines 121 to 129.\<close>

definition title_font :: "video_config \<Rightarrow> string" where
  "title_font cfg = ''bold 80px '' @
     (if fontFamily cfg = serif then ''Playfair Display''
      else if fontFamily cfg = mono then ''Roboto Mono'' else ''Inter'')"

definition drawTitle :: "video_config \<Rightarrow> real \<Rightarrow> context2d \<Rightarrow> context2d" where
  "drawTitle cfg currentTime c =
     (if currentTime < 4
      then let titleOpacity = 1 - currentTime / 4;
               c1 = set_globalAlpha (max 0 titleOpacity) c;
               c2 = c1\<lparr>fillStyle := Color ''white''\<rparr>;
               c3 = c2\<lparr>textAlign := ''center''\<rparr>;
               c4 = c3\<lparr>font := title_font cfg\<rparr>;
               c5 = fillText (title cfg) (WIDTH / 2) (HEIGHT / 2) c4
           in set_globalAlpha 1 c5
      else c)"

text \<open>
  The title's fade factor: the opacity line 123 computes while the title is drawn, and 0
  once line 121 skips it.
\<close>

definition titleAlpha :: "real \<Rightarrow> real" where
  "titleAlpha currentTime = (if currentTime < 4 then max 0 (1 - currentTime / 4) else 0)"

text \<open>Layer 4, lines 132 to 135.\<close>

definition subtitle_font :: "video_config \<Rightarrow> string" where
  "subtitle_font cfg = ''italic 30px '' @
     (if fontFamily cfg = serif then ''Playfair Display'' else ''Inter'')"

definition drawSubtitle :: "video_config \<Rightarrow> context2d \<Rightarrow> context2d" where
  "drawSubtitle cfg c =
     (let c1 = c\<lparr>fillStyle := Color ''rgba(255, 255, 255, 0.9)''\<rparr>;
          c2 = c1\<lparr>textAlign := ''right''\<rparr>;
          c3 = c2\<lparr>font := subtitle_font cfg\<rparr>
      in fillText (subtitle cfg) (WIDTH - 50) (HEIGHT - 50) c3)"

text \<open>
  \<^verbatim>\<open>analyser.getByteFrequencyData(array)\<close> overwrites the array with the node's current
  data: excess data are dropped, excess elements of the array are left as they are.
\<close>

definition getByteFrequencyData :: "byte list \<Rightarrow> byte list \<Rightarrow> byte list" where
  "getByteFrequencyData bins array = take (length array) bins @ drop (length bins) array"

text \<open>Layer 5, lines 141 to 163. One turn of the loop:\<close>

definition barWidth :: real where
  "barWidth = 6"

definition gap :: real where
  "gap = 2"

definition maxBarHeight :: real where
  "maxBarHeight = 150"

definition visualizerX :: real where
  "visualizerX = 50"

definition visualizerY :: real where
  "visualizerY = HEIGHT - 50"

definition barsToDraw :: nat where
  "barsToDraw = 40"

definition drawBar :: "byte list \<Rightarrow> nat \<Rightarrow> context2d \<Rightarrow> context2d" where
  "drawBar dataArray i c =
     (let val = element dataArray (int i);
          percent = map_option (\<lambda>v. real (unat v) / 255) val;
          height = map_option (\<lambda>p. p * maxBarHeight) percent;
          x = visualizerX + real i * (barWidth + gap);
          y = map_option (\<lambda>h. visualizerY - h) height
      in fill (roundRect x y barWidth height 4 (beginPath c)))"

definition drawVisualizer :: "byte list \<Rightarrow> context2d \<Rightarrow> context2d" where
  "drawVisualizer dataArray c =
     fold (drawBar dataArray) [0 ..< barsToDraw] (c\<lparr>fillStyle := Color ''#4E8cFF''\<rparr>)"

text \<open>
  The path that turn \<open>i\<close> of the loop has built when it calls \<^verbatim>\<open>fill()\<close>: one
  rounded rectangle, or nothing when \<^verbatim>\<open>dataArray[i]\<close> is \<^verbatim>\<open>undefined\<close>.
\<close>

definition bar_path :: "byte list \<Rightarrow> nat \<Rightarrow> shape list" where
  "bar_path dataArray i =
     (case element dataArray (int i) of
        None \<Rightarrow> []
      | Some v \<Rightarrow>
          [RoundRect (visualizerX + real i * (barWidth + gap))
             (visualizerY - real (unat v) / 255 * maxBarHeight)
             barWidth (real (unat v) / 255 * maxBarHeight) 4])"

text \<open>
  drawFrame returns the context and the typed array, both of which it mutates, or the
  exception it throws.
\<close>

definition drawFrame :: "renderer \<Rightarrow> context2d \<Rightarrow> real \<Rightarrow> real option \<Rightarrow> byte list \<Rightarrow> js_error + context2d \<times> byte list" where
  "drawFrame env ctx currentTime duration dataArray =
     (if length (imageBitmaps env) = 0 then Inr (ctx, dataArray)
      else case drawBackground (imageBitmaps env) currentTime duration ctx of
             Inl e \<Rightarrow> Inl e
           | Inr c1 \<Rightarrow>
               let c2 = drawOverlay c1;
                   c3 = drawTitle (config env) currentTime c2;
                   c4 = drawSubtitle (config env) c3
               in (case analyser env of
                     None \<Rightarrow> Inr (c4, dataArray)
                   | Some bins \<Rightarrow>
                       let dataArray' = getByteFrequencyData bins dataArray
                       in Inr (drawVisualizer dataArray' c4, dataArray')))"


text \<open>A context as \<^verbatim>\<open>getContext('2d')\<close> gives it on a cleared canvas.\<close>

definition fresh_context :: context2d where
  "fresh_context =
     \<lparr>globalAlpha = 1, fillStyle = Color ''#000000'', textAlign = ''start'',
      font = ''10px sans-serif'', path = [], painted = []\<rparr>"

subsection \<open>startExport (lines 205 to 283)\<close>

text \<open>
  The audio element as the component observes it; \<open>duration\<close> is \<open>None\<close> while it is
  \<^verbatim>\<open>NaN\<close>.
\<close>

record audio_element =
  audio_currentTime :: real
  audio_duration :: "real option"
  audio_ended :: bool

text \<open>
  The refs of the component that startExport reads: \<open>None\<close> is \<^verbatim>\<open>null\<close> or
  \<^verbatim>\<open>undefined\<close>. The canvas is given by its 2D context.
\<close>

record session =
  canvasRef :: "context2d option"
  audioRef :: "audio_element option"
  requestRef :: "nat option"
  render :: renderer

text \<open>
  What the browser decides during one export: the audio tracks of
  \<^verbatim>\<open>audio.captureStream()\<close> (\<open>None\<close> when the method does not exist), the answers of
  \<^verbatim>\<open>MediaRecorder.isTypeSupported\<close>, whether each of the two constructor calls throws,
  whether \<^verbatim>\<open>audio.play()\<close> rejects, the audio element as each animation frame finds
  it, and the sizes of the chunks the recorder delivers.
\<close>

record browser =
  audioTracks :: "nat option"
  mp4Supported :: bool
  webmSupported :: bool
  recorderWithMime :: "js_error option"
  recorderDefault :: "js_error option"
  playRejects :: "js_error option"
  frames :: "audio_element list"
  chunkSizes :: "nat list"

datatype blob = Blob "nat list" string

datatype event =
    CancelAnimationFrame nat
  | Pause
  | Seek real
  | CanvasCaptureStream nat
  | AudioCaptureStream
  | AddTrack
  | NewMediaRecorder "string option"
  | Play
  | RecorderStart
  | ExportProgress real
  | RequestAnimationFrame
  | RecorderStop

datatype outcome = Resolved blob | Rejected js_error | Pending

record export_run =
  run_events :: "event list"
  run_surface :: "draw_op list"
  run_result :: outcome

text \<open>Lines 228 to 233.\<close>

definition mimeType :: "browser \<Rightarrow> string" where
  "mimeType b =
     (if mp4Supported b then ''video/mp4''
      else if webmSupported b then ''video/webm''
      else ''video/webm;codecs=vp9'')"

text \<open>
  Lines 275 to 279, the drawing of one turn of checkEnd. An exception of drawFrame
  leaves the turn; the context is taken as it was before the call.
\<close>

definition export_draw :: "renderer \<Rightarrow> audio_element \<Rightarrow> context2d \<Rightarrow> js_error + context2d" where
  "export_draw env audio ctx =
     (case analyser env of
        None \<Rightarrow> Inr ctx
      | Some bins \<Rightarrow>
          map_sum id fst
            (drawFrame env ctx (audio_currentTime audio) (audio_duration audio) (replicate (length bins) 0)))"

text \<open>Lines 270 to 272: \<^verbatim>\<open>audio.duration\<close> is falsy when it is 0 or \<^verbatim>\<open>NaN\<close>.\<close>

definition export_progress :: "audio_element \<Rightarrow> event list" where
  "export_progress audio =
     (case audio_duration audio of
        None \<Rightarrow> []
      | Some d \<Rightarrow> if d = 0 then [] else [ExportProgress (audio_currentTime audio / d * 100)])"

text \<open>
  checkEnd, lines 266 to 281, once per animation frame. The result is the events, the
  context and whether the recorder was stopped (its \<^verbatim>\<open>onstop\<close> handler, lines 249 to
  254, then pauses and rewinds the audio); when the frames run out before the audio has
  ended, the loop is still waiting. An exception of the drawing in a later frame is
  not caught by anything and the next frame is already requested, so the loop goes on.
\<close>

fun checkEnd :: "renderer \<Rightarrow> audio_element list \<Rightarrow> context2d \<Rightarrow> event list \<times> context2d \<times> bool" where
  "checkEnd env [] ctx = ([], ctx, False)"
| "checkEnd env (audio # later) ctx =
     (if audio_ended audio then ([RecorderStop, Pause, Seek 0], ctx, True)
      else let ctx' = (case export_draw env audio ctx of Inl e \<Rightarrow> ctx | Inr c \<Rightarrow> c);
               (evs, ctx'', stopped) = checkEnd env later ctx'
           in (export_progress audio @ [RequestAnimationFrame] @ evs, ctx'', stopped))"

text \<open>
  The first call of checkEnd runs inside the \<^verbatim>\<open>then\<close> callback of line 257, whose
  \<^verbatim>\<open>catch\<close> rejects the export with an exception thrown there.
\<close>

definition first_frame_error :: "renderer \<Rightarrow> audio_element list \<Rightarrow> context2d \<Rightarrow> js_error option" where
  "first_frame_error env fs ctx =
     (case fs of
        [] \<Rightarrow> None
      | audio # later \<Rightarrow>
          if audio_ended audio then None
          else (case export_draw env audio ctx of Inl e \<Rightarrow> Some e | Inr c \<Rightarrow> None))"

text \<open>
  Lines 243 to 263 after the recorder exists: \<^verbatim>\<open>audio.play()\<close>, then
  \<^verbatim>\<open>recorder.start()\<close> and the loop. \<^verbatim>\<open>onstop\<close> resolves with the chunks of
  positive size, tagged with \<^verbatim>\<open>mimeType\<close>. The calls \<^verbatim>\<open>recorder.start()\<close> and
  \<^verbatim>\<open>recorder.stop()\<close> are taken not to throw.
\<close>

definition record_export :: "session \<Rightarrow> browser \<Rightarrow> context2d \<Rightarrow> event list \<Rightarrow> export_run" where
  "record_export s b ctx before =
     (case playRejects b of
        Some e \<Rightarrow>
          \<lparr>run_events = before @ [Play], run_surface = painted ctx, run_result = Rejected e\<rparr>
      | None \<Rightarrow>
          (case checkEnd (render s) (frames b) ctx of
             (evs, ctx', stopped) \<Rightarrow>
               \<lparr>run_events = before @ [Play, RecorderStart] @ evs,
                run_surface = painted ctx',
                run_result =
                  (case first_frame_error (render s) (frames b) ctx of
                     Some e \<Rightarrow> Rejected e
                   | None \<Rightarrow>
                       if stopped
                       then Resolved (Blob (filter (\<lambda>size. size > 0) (chunkSizes b)) (mimeType b))
                       else Pending)\<rparr>))"

text \<open>
  startExport. The function is \<^verbatim>\<open>async\<close>: its \<^verbatim>\<open>throw\<close> and an exception of the
  promise executor both reject the promise the caller awaits.
\<close>

definition startExport :: "session \<Rightarrow> browser \<Rightarrow> export_run" where
  "startExport s b =
     (case (canvasRef s, audioRef s) of
        (None, _) \<Rightarrow> \<lparr>run_events = [], run_surface = [], run_result = Rejected (Error ''Not ready'')\<rparr>
      | (Some ctx, None) \<Rightarrow>
          \<lparr>run_events = [], run_surface = painted ctx, run_result = Rejected (Error ''Not ready'')\<rparr>
      | (Some ctx, Some audio) \<Rightarrow>
          let stopLoop =
                (case requestRef s of
                   None \<Rightarrow> []
                 | Some handle \<Rightarrow> if handle = 0 then [] else [CancelAnimationFrame handle])
                @ [Pause, Seek 0];
              stream =
                [CanvasCaptureStream 30]
                @ (case audioTracks b of
                     None \<Rightarrow> []
                   | Some n \<Rightarrow> AudioCaptureStream # (if n > 0 then [AddTrack] else []))
          in (case recorderWithMime b of
                Some e \<Rightarrow>
                  (case recorderDefault b of
                     Some e' \<Rightarrow>
                       \<lparr>run_events = stopLoop @ stream, run_surface = painted ctx,
                        run_result = Rejected e'\<rparr>
                   | None \<Rightarrow>
                       record_export s b ctx (stopLoop @ stream @ [NewMediaRecorder None]))
              | None \<Rightarrow>
                  record_export s b ctx
                    (stopLoop @ stream @ [NewMediaRecorder (Some (mimeType b))])))"

subsection \<open>generateVideoMetadata (geminiService.ts, lines 3 to 46)\<close>

datatype json =
    JNull
  | JBool bool
  | JNumber real
  | JString string
  | JArray "json list"
  | JObject "(string \<times> json) list"

text \<open>
  What the function depends on: the environment variable, the call of the service
  (\<open>Inl\<close> when the promise rejects or the call throws, else \<^verbatim>\<open>response.text\<close>) and
  \<^verbatim>\<open>JSON.parse\<close>, which throws on a text that is not JSON.
\<close>

record service =
  API_KEY :: "string option"
  generateContent :: "string \<Rightarrow> string \<Rightarrow> js_error + string"
  JSON_parse :: "string \<Rightarrow> js_error + json"

text \<open>getAiClient: the client is represented by its key.\<close>

definition getAiClient :: "service \<Rightarrow> js_error + string" where
  "getAiClient svc =
     (case API_KEY svc of
        None \<Rightarrow> Inl (Error ''API_KEY is missing'')
      | Some apiKey \<Rightarrow> if apiKey = [] then Inl (Error ''API_KEY is missing'') else Inr apiKey)"

definition metadata_prompt :: "string \<Rightarrow> string \<Rightarrow> string" where
  "metadata_prompt title' subtitle' =
     [CHR 0x0A] @ ''      I have created a music video with the title '' @ [CHR 0x22] @ title'
     @ [CHR 0x22] @ '' and subtitle '' @ [CHR 0x22] @ subtitle' @ [CHR 0x22] @ ''.'' @ [CHR 0x0A]
     @ ''      Generate a catchy YouTube video description and a list of 5 relevant hashtags.''
     @ [CHR 0x0A] @ ''      Return the response in JSON format.'' @ [CHR 0x0A] @ ''    ''"

text \<open>The body of the \<^verbatim>\<open>try\<close> block, lines 11 to 38.\<close>

definition generateVideoMetadata_try :: "service \<Rightarrow> string \<Rightarrow> string \<Rightarrow> js_error + json" where
  "generateVideoMetadata_try svc title' subtitle' =
     (case getAiClient svc of
        Inl e \<Rightarrow> Inl e
      | Inr ai \<Rightarrow>
          (case generateContent svc ''gemini-2.5-flash'' (metadata_prompt title' subtitle') of
             Inl e \<Rightarrow> Inl e
           | Inr text \<Rightarrow> JSON_parse svc text))"

text \<open>The object of the \<^verbatim>\<open>catch\<close> block, lines 41 to 44.\<close>

definition metadata_fallback :: "string \<Rightarrow> json" where
  "metadata_fallback title' =
     JObject
       [(''description'', JString (''Check out my new video: '' @ title' @ ''!'')),
        (''hashtags'', JArray [JString ''#musicvideo'', JString ''#newupload''])]"

text \<open>The settled promise of generateVideoMetadata: \<open>Inl\<close> would be a rejection.\<close>

definition generateVideoMetadata :: "service \<Rightarrow> string \<Rightarrow> string \<Rightarrow> js_error + json" where
  "generateVideoMetadata svc title' subtitle' =
     (case generateVideoMetadata_try svc title' subtitle' of
        Inl error \<Rightarrow> Inr (metadata_fallback title')
      | Inr parsed \<Rightarrow> Inr parsed)"

section \<open>Properties of the frame timing\<close>

lemma slideDuration_pos: "0 < n \<Longrightarrow> 0 < slideDuration duration n"
  by (simp add: slideDuration_def split: option.split)

lemma currentIndex_upper: "currentIndex t duration n \<le> int n - 1"
  by (simp add: currentIndex_def)

lemma currentIndex_lower:
  assumes "0 < n" and "0 \<le> t"
  shows "0 \<le> currentIndex t duration n"
proof -
  have "0 \<le> t / slideDuration duration n"
    using assms slideDuration_pos [of n duration] by simp
  then have "0 \<le> \<lfloor>t / slideDuration duration n\<rfloor>"
    by simp
  moreover have "0 \<le> int n - 1"
    using assms by simp
  ultimately show ?thesis
    by (simp add: currentIndex_def)
qed

lemma currentIndex_last:
  assumes "0 < n" and "real (n - 1) * slideDuration duration n \<le> t"
  shows "currentIndex t duration n = int n - 1"
proof -
  have pos: "0 < slideDuration duration n"
    using assms slideDuration_pos by simp
  have "real (n - 1) \<le> t / slideDuration duration n"
    using assms pos by (simp add: pos_le_divide_eq)
  then have "int (n - 1) \<le> \<lfloor>t / slideDuration duration n\<rfloor>"
    by (simp add: le_floor_iff)
  moreover have "int (n - 1) = int n - 1"
    using assms by simp
  ultimately show ?thesis
    by (simp add: currentIndex_def)
qed

text \<open>
  Claim C2. With at least one image and a playback position that is not negative (in
  particular every position in \<open>[0, duration)\<close>), the index of the current image lies
  between 0 and \<open>imageCount - 1\<close>, whatever the duration; and from the start of the last
  slide on, also at and after \<open>duration\<close>, the index is \<open>imageCount - 1\<close>.
\<close>

theorem currentIndex_in_range:
  "(1 \<le> imageCount \<and> 0 \<le> currentTime \<longrightarrow>
      0 \<le> currentIndex currentTime duration imageCount \<and>
      currentIndex currentTime duration imageCount \<le> int imageCount - 1) \<and>
   (1 \<le> imageCount \<and>
    real (imageCount - 1) * slideDuration duration imageCount \<le> currentTime \<longrightarrow>
      currentIndex currentTime duration imageCount = int imageCount - 1) \<and>
   (1 \<le> imageCount \<and> 0 < d \<and> d \<le> currentTime \<longrightarrow>
      currentIndex currentTime (Some d) imageCount = int imageCount - 1)"
proof (intro conjI impI)
  assume h: "1 \<le> imageCount \<and> 0 \<le> currentTime"
  then show "0 \<le> currentIndex currentTime duration imageCount"
    using currentIndex_lower [of imageCount currentTime duration] by simp
  show "currentIndex currentTime duration imageCount \<le> int imageCount - 1"
    by (rule currentIndex_upper)
next
  assume h: "1 \<le> imageCount \<and>
    real (imageCount - 1) * slideDuration duration imageCount \<le> currentTime"
  from h have "0 < imageCount"
    by simp
  moreover from h have "real (imageCount - 1) * slideDuration duration imageCount \<le> currentTime"
    by (rule conjunct2)
  ultimately show "currentIndex currentTime duration imageCount = int imageCount - 1"
    by (rule currentIndex_last)
next
  assume h: "1 \<le> imageCount \<and> 0 < d \<and> d \<le> currentTime"
  then have n: "0 < real imageCount"
    by simp
  have "real (imageCount - 1) * (d / real imageCount) \<le> real imageCount * (d / real imageCount)"
    using h by (intro mult_right_mono) simp_all
  also have "\<dots> = d"
    using n by simp
  finally have "real (imageCount - 1) * slideDuration (Some d) imageCount \<le> currentTime"
    using h by (simp add: slideDuration_def)
  moreover from h have "0 < imageCount"
    by simp
  ultimately show "currentIndex currentTime (Some d) imageCount = int imageCount - 1"
    by (intro currentIndex_last)
qed

theorem currentIndex_in_range_witness:
  "currentIndex 5 (Some 10) 2 = 1 \<and> currentIndex 12 (Some 10) 2 = 1 \<and>
   currentIndex 0 (Some 10) 2 = 0"
proof -
  have a: "0 \<le> currentIndex 5 (Some 10) 2 \<and> currentIndex 5 (Some 10) 2 \<le> int 2 - 1"
    using currentIndex_in_range [of 2 5 "Some 10" 10] by simp
  have b: "currentIndex 5 (Some 10) 2 = int 2 - 1"
    using currentIndex_in_range [of 2 5 "Some 10" 10] by (simp add: slideDuration_def)
  have c: "currentIndex 12 (Some 10) 2 = int 2 - 1"
    using currentIndex_in_range [of 2 12 "Some 10" 10] by simp
  have d: "currentIndex 0 (Some 10) 2 = 0"
    by (simp add: currentIndex_def slideDuration_def)
  show ?thesis
    using a b c d by simp
qed





text \<open>
  The preview tick never reaches the fallback: animate replaces a duration of 0 or
  \<^verbatim>\<open>NaN\<close> by 1 before the call, so drawFrame divides 1 second among the images. The
  clamp still gives index 2 in the scenario above.
\<close>

lemma animate_duration_pos:
  "(case d of None \<Rightarrow> True | Some x \<Rightarrow> 0 \<le> x) \<Longrightarrow> \<exists>x. animate_duration d = Some x \<and> 0 < x"
  by (auto simp: animate_duration_def split: option.splits)

lemma animate_slideDuration:
  "slideDuration (animate_duration None) n = 1 / real n"
  "slideDuration (animate_duration (Some 0)) n = 1 / real n"
  "0 < d \<Longrightarrow> slideDuration (animate_duration (Some d)) n = d / real n"
  by (simp_all add: animate_duration_def slideDuration_def)

lemma animate_scenario_B:
  "currentIndex 12 (animate_duration (Some 0)) 3 = 2"
  "currentIndex 12 (animate_duration None) 3 = 2"
  by (simp_all add: animate_duration_def slideDuration_def currentIndex_def)

section \<open>Title fade\<close>

lemma titleAlpha_range: "0 \<le> t \<Longrightarrow> 0 \<le> titleAlpha t \<and> titleAlpha t \<le> 1"
  by (simp add: titleAlpha_def)

text \<open>
  Claim C4. The title is drawn only while the position is below 4 seconds, with the
  opacity \<open>max(0, 1 - currentTime / 4)\<close>; from 4 seconds on nothing is drawn and the fade
  factor is 0; between 0 and 4 seconds the fade factor does not increase with time.
\<close>

theorem title_fade:
  "(0 \<le> currentTime \<and> currentTime < 4 \<longrightarrow>
      painted (drawTitle cfg currentTime c) =
        painted c @ [FillText (max 0 (1 - currentTime / 4)) (Color ''white'')
                       (title_font cfg) ''center'' (title cfg) 640 360] \<and>
      titleAlpha currentTime = max 0 (1 - currentTime / 4)) \<and>
   (4 \<le> currentTime \<longrightarrow> drawTitle cfg currentTime c = c \<and> titleAlpha currentTime = 0) \<and>
   (0 \<le> s \<and> s \<le> t \<and> t \<le> 4 \<longrightarrow> titleAlpha t \<le> titleAlpha s)"
proof (intro conjI impI)
  assume h: "0 \<le> currentTime \<and> currentTime < 4"
  then have "0 \<le> 1 - currentTime / 4" and "1 - currentTime / 4 \<le> 1"
    by simp_all
  then have ok: "0 \<le> max 0 (1 - currentTime / 4) \<and> max 0 (1 - currentTime / 4) \<le> 1"
    by simp
  show "painted (drawTitle cfg currentTime c) =
        painted c @ [FillText (max 0 (1 - currentTime / 4)) (Color ''white'')
                       (title_font cfg) ''center'' (title cfg) 640 360]"
    using h ok
    by (simp add: drawTitle_def Let_def set_globalAlpha_def fillText_def paint_def
        WIDTH_def HEIGHT_def)
  show "titleAlpha currentTime = max 0 (1 - currentTime / 4)"
    using h by (simp add: titleAlpha_def)
next
  assume "4 \<le> currentTime"
  then show "drawTitle cfg currentTime c = c" and "titleAlpha currentTime = 0"
    by (simp_all add: drawTitle_def titleAlpha_def)
next
  assume "0 \<le> s \<and> s \<le> t \<and> t \<le> 4"
  then show "titleAlpha t \<le> titleAlpha s"
    by (auto simp: titleAlpha_def max_def)
qed

theorem title_fade_witness:
  "painted (drawTitle \<lparr>title = ''T'', subtitle = ''S'', fontFamily = mono\<rparr> 1
      \<lparr>globalAlpha = 1, fillStyle = Color ''red'', textAlign = ''left'', font = ''f'',
       path = [], painted = []\<rparr>) =
     [FillText (3 / 4) (Color ''white'') ''bold 80px Roboto Mono'' ''center'' ''T'' 640 360] \<and>
   titleAlpha 5 = 0 \<and> titleAlpha 3 \<le> titleAlpha 1"
  using title_fade [of 1 "\<lparr>title = ''T'', subtitle = ''S'', fontFamily = mono\<rparr>"
      "\<lparr>globalAlpha = 1, fillStyle = Color ''red'', textAlign = ''left'', font = ''f'',
       path = [], painted = []\<rparr>" 1 3]
    title_fade [of 5 "\<lparr>title = ''T'', subtitle = ''S'', fontFamily = mono\<rparr>"
      "\<lparr>globalAlpha = 1, fillStyle = Color ''red'', textAlign = ''left'', font = ''f'',
       path = [], painted = []\<rparr>" 1 3]
  by (simp add: title_font_def)

section \<open>Cover fit\<close>







section \<open>Rendering without images\<close>

text \<open>
  Claim C10. With no decoded image, drawFrame returns at once for every position,
  duration and array: nothing is thrown, and the context (surface, attributes, path) and
  the array are as they were.
\<close>

theorem drawFrame_no_images:
  "imageBitmaps env = [] \<longrightarrow> drawFrame env ctx currentTime duration dataArray = Inr (ctx, dataArray)"
  by (simp add: drawFrame_def)

theorem drawFrame_no_images_witness:
  "imageBitmaps \<lparr>imageBitmaps = [], analyser = Some [255, 0], config = \<lparr>title = ''T'', subtitle = ''S'', fontFamily = sans\<rparr>\<rparr> = [] \<and>
   drawFrame \<lparr>imageBitmaps = [], analyser = Some [255, 0], config = \<lparr>title = ''T'', subtitle = ''S'', fontFamily = sans\<rparr>\<rparr>
      \<lparr>globalAlpha = 1, fillStyle = Color ''#000000'', textAlign = ''start'', font = ''10px sans-serif'',
       path = [], painted = []\<rparr> 2 (Some 10) [0, 0]
    = Inr (\<lparr>globalAlpha = 1, fillStyle = Color ''#000000'', textAlign = ''start'', font = ''10px sans-serif'',
       path = [], painted = []\<rparr>, [0, 0])"
  using drawFrame_no_images [of "\<lparr>imageBitmaps = [], analyser = Some [255, 0], config = \<lparr>title = ''T'', subtitle = ''S'', fontFamily = sans\<rparr>\<rparr>"
     "\<lparr>globalAlpha = 1, fillStyle = Color ''#000000'', textAlign = ''start'', font = ''10px sans-serif'',
       path = [], painted = []\<rparr>" 2 "Some 10" "[0, 0]"]
  by simp

section \<open>The layers of a frame\<close>

lemma drawBar_painted:
  "painted (drawBar dataArray i c) =
     painted c @ [Fill (globalAlpha c) (fillStyle c) (bar_path dataArray i)]"
  by (simp add: drawBar_def bar_path_def Let_def fill_def paint_def roundRect_def beginPath_def
      split: option.split)

lemma drawBar_attrs:
  "globalAlpha (drawBar dataArray i c) = globalAlpha c"
  "fillStyle (drawBar dataArray i c) = fillStyle c"
  "textAlign (drawBar dataArray i c) = textAlign c"
  "font (drawBar dataArray i c) = font c"
  by (simp_all add: drawBar_def Let_def fill_def paint_def roundRect_def beginPath_def
      split: option.split)

lemma fold_drawBar:
  "painted (fold (drawBar dataArray) is c) =
     painted c @ map (\<lambda>i. Fill (globalAlpha c) (fillStyle c) (bar_path dataArray i)) is \<and>
   globalAlpha (fold (drawBar dataArray) is c) = globalAlpha c \<and>
   fillStyle (fold (drawBar dataArray) is c) = fillStyle c \<and>
   textAlign (fold (drawBar dataArray) is c) = textAlign c \<and>
   font (fold (drawBar dataArray) is c) = font c"
  by (induction "is" arbitrary: c) (simp_all add: drawBar_painted drawBar_attrs)

lemma drawVisualizer_painted:
  "painted (drawVisualizer dataArray c) =
     painted c @ map (\<lambda>i. Fill (globalAlpha c) (Color ''#4E8cFF'') (bar_path dataArray i)) [0 ..< 40]"
  by (simp add: drawVisualizer_def fold_drawBar barsToDraw_def)

lemma element_currentIndex:
  assumes "imgs \<noteq> []" and "0 \<le> t"
  shows "\<exists>img. element imgs (currentIndex t d (length imgs)) = Some img"
proof -
  have n: "0 < length imgs"
    using assms by simp
  have "0 \<le> currentIndex t d (length imgs)"
    using n assms by (intro currentIndex_lower)
  moreover have "currentIndex t d (length imgs) < int (length imgs)"
    using currentIndex_upper [of t d "length imgs"] by simp
  ultimately show ?thesis
    by (simp add: element_def)
qed

lemma js_rem_range: "0 \<le> a \<Longrightarrow> 0 < b \<Longrightarrow> 0 \<le> js_rem a b \<and> js_rem a b < b"
  by (cases "a = 0") (simp_all add: js_rem_def)

lemma element_nextIndex:
  assumes "imgs \<noteq> []" and "0 \<le> t"
  shows "\<exists>img. element imgs (nextIndex t d (length imgs)) = Some img"
proof -
  have n: "0 < length imgs"
    using assms by simp
  have "0 \<le> currentIndex t d (length imgs)"
    using n assms by (intro currentIndex_lower)
  then have "0 \<le> currentIndex t d (length imgs) + 1"
    by simp
  moreover have "0 < int (length imgs)"
    using n by simp
  ultimately have "0 \<le> nextIndex t d (length imgs) \<and> nextIndex t d (length imgs) < int (length imgs)"
    unfolding nextIndex_def by (rule js_rem_range)
  then show ?thesis
    by (simp add: element_def)
qed

lemma drawBackground_ok:
  assumes "imgs \<noteq> []" and "0 \<le> t"
  shows "\<exists>c'. drawBackground imgs t d c = Inr c'"
proof -
  obtain img where a: "element imgs (currentIndex t d (length imgs)) = Some img"
    using element_currentIndex [OF assms] by blast
  obtain img' where b: "element imgs (nextIndex t d (length imgs)) = Some img'"
    using element_nextIndex [OF assms] by blast
  show ?thesis
    by (simp add: drawBackground_def Let_def a b)
qed

lemma set_globalAlpha_painted [simp]: "painted (set_globalAlpha v c) = painted c"
  by (simp add: set_globalAlpha_def)

lemma set_globalAlpha_valid: "0 \<le> v \<Longrightarrow> v \<le> 1 \<Longrightarrow> globalAlpha (set_globalAlpha v c) = v"
  by (simp add: set_globalAlpha_def)

lemma set_globalAlpha_rel:
  "globalAlpha c = globalAlpha c' \<Longrightarrow>
     globalAlpha (set_globalAlpha v c) = globalAlpha (set_globalAlpha v c')"
  by (simp add: set_globalAlpha_def)

lemma drawImageProp_rel:
  "globalAlpha c = globalAlpha c' \<Longrightarrow> painted c = painted c' \<Longrightarrow>
     globalAlpha (drawImageProp img x y w h c) = globalAlpha (drawImageProp img x y w h c') \<and>
     painted (drawImageProp img x y w h c) = painted (drawImageProp img x y w h c')"
  by (simp add: drawImageProp_def drawImage_def paint_def split: prod.split)

lemma drawBackground_undefined:
  "element imgs (currentIndex t d (length imgs)) = None \<Longrightarrow>
     drawBackground imgs t d c = Inl (TypeError ''img is undefined'')"
  by (simp add: drawBackground_def Let_def)

lemma drawBackground_single:
  "element imgs (currentIndex t d (length imgs)) = Some img \<Longrightarrow>
   \<not> crossfading t d (length imgs) \<Longrightarrow>
     drawBackground imgs t d c =
       Inr (set_globalAlpha 1 (drawImageProp img 0 0 WIDTH HEIGHT (set_globalAlpha 1 c)))"
  by (simp add: drawBackground_def Let_def)

lemma drawBackground_next_undefined:
  "element imgs (currentIndex t d (length imgs)) = Some img \<Longrightarrow>
   crossfading t d (length imgs) \<Longrightarrow>
   element imgs (nextIndex t d (length imgs)) = None \<Longrightarrow>
     drawBackground imgs t d c = Inl (TypeError ''img is undefined'')"
  by (simp add: drawBackground_def Let_def)

lemma drawBackground_crossfade:
  "element imgs (currentIndex t d (length imgs)) = Some img \<Longrightarrow>
   crossfading t d (length imgs) \<Longrightarrow>
   element imgs (nextIndex t d (length imgs)) = Some img' \<Longrightarrow>
     drawBackground imgs t d c =
       Inr (set_globalAlpha 1 (drawImageProp img' 0 0 WIDTH HEIGHT
             (set_globalAlpha (fadeProgress t d (length imgs))
               (drawImageProp img 0 0 WIDTH HEIGHT (set_globalAlpha 1 c)))))"
  by (simp add: drawBackground_def Let_def)

lemma set_globalAlpha_one: "globalAlpha (set_globalAlpha 1 c) = 1"
  by (simp add: set_globalAlpha_def)

lemma drawBackground_rel:
  assumes "painted c = painted c'"
  shows "(\<exists>e. drawBackground imgs t d c = Inl e \<and> drawBackground imgs t d c' = Inl e) \<or>
         (\<exists>b b'. drawBackground imgs t d c = Inr b \<and> drawBackground imgs t d c' = Inr b' \<and>
            globalAlpha b = 1 \<and> globalAlpha b' = 1 \<and> painted b = painted b')"
proof -
  define c1 where "c1 = set_globalAlpha 1 c"
  define c1' where "c1' = set_globalAlpha 1 c'"
  have r1: "globalAlpha c1 = globalAlpha c1'" "painted c1 = painted c1'"
    using assms by (simp_all add: c1_def c1'_def set_globalAlpha_one)
  show ?thesis
  proof (cases "element imgs (currentIndex t d (length imgs))")
    case None
    then show ?thesis
      by (simp add: drawBackground_undefined)
  next
    case (Some img)
    define c2 where "c2 = drawImageProp img 0 0 WIDTH HEIGHT c1"
    define c2' where "c2' = drawImageProp img 0 0 WIDTH HEIGHT c1'"
    have r2: "globalAlpha c2 = globalAlpha c2'" "painted c2 = painted c2'"
      unfolding c2_def c2'_def using drawImageProp_rel [OF r1] by simp_all
    show ?thesis
    proof (cases "crossfading t d (length imgs)")
      case False
      have a: "drawBackground imgs t d c = Inr (set_globalAlpha 1 c2)"
        and b: "drawBackground imgs t d c' = Inr (set_globalAlpha 1 c2')"
        unfolding c2_def c2'_def c1_def c1'_def
        by (rule drawBackground_single [OF Some False])+
      have p: "painted (set_globalAlpha 1 c2) = painted (set_globalAlpha 1 c2')"
        using r2 by simp
      show ?thesis
        by (intro disjI2 exI conjI) (rule a b p set_globalAlpha_one)+
    next
      case True
      define c3 where "c3 = set_globalAlpha (fadeProgress t d (length imgs)) c2"
      define c3' where "c3' = set_globalAlpha (fadeProgress t d (length imgs)) c2'"
      have r3: "globalAlpha c3 = globalAlpha c3'" "painted c3 = painted c3'"
        unfolding c3_def c3'_def using r2 set_globalAlpha_rel [OF r2(1)] by simp_all
      show ?thesis
      proof (cases "element imgs (nextIndex t d (length imgs))")
        case None
        then show ?thesis
          using Some True by (simp add: drawBackground_next_undefined)
      next
        case next_img: (Some img')
        define c4 where "c4 = drawImageProp img' 0 0 WIDTH HEIGHT c3"
        define c4' where "c4' = drawImageProp img' 0 0 WIDTH HEIGHT c3'"
        have r4: "painted c4 = painted c4'"
          unfolding c4_def c4'_def using drawImageProp_rel [OF r3] by simp
        have a: "drawBackground imgs t d c = Inr (set_globalAlpha 1 c4)"
          and b: "drawBackground imgs t d c' = Inr (set_globalAlpha 1 c4')"
          unfolding c4_def c4'_def c3_def c3'_def c2_def c2'_def c1_def c1'_def
          by (rule drawBackground_crossfade [OF Some True next_img])+
        have p: "painted (set_globalAlpha 1 c4) = painted (set_globalAlpha 1 c4')"
          using r4 by simp
        show ?thesis
          by (intro disjI2 exI conjI) (rule a b p set_globalAlpha_one)+
      qed
    qed
  qed
qed

lemma drawOverlay_rel:
  "globalAlpha c = globalAlpha c' \<Longrightarrow> painted c = painted c' \<Longrightarrow>
     globalAlpha (drawOverlay c) = globalAlpha (drawOverlay c') \<and>
     painted (drawOverlay c) = painted (drawOverlay c')"
  by (simp add: drawOverlay_def fillRect_def paint_def)

lemma drawOverlay_alpha: "globalAlpha (drawOverlay c) = globalAlpha c"
  by (simp add: drawOverlay_def fillRect_def paint_def)

lemma drawTitle_rel:
  "globalAlpha c = 1 \<Longrightarrow> globalAlpha c' = 1 \<Longrightarrow> painted c = painted c' \<Longrightarrow>
     globalAlpha (drawTitle cfg t c) = 1 \<and> globalAlpha (drawTitle cfg t c') = 1 \<and>
     painted (drawTitle cfg t c) = painted (drawTitle cfg t c')"
  by (simp add: drawTitle_def Let_def fillText_def paint_def set_globalAlpha_def)

lemma drawSubtitle_rel:
  "globalAlpha c = globalAlpha c' \<Longrightarrow> painted c = painted c' \<Longrightarrow>
     globalAlpha (drawSubtitle cfg c) = globalAlpha (drawSubtitle cfg c') \<and>
     painted (drawSubtitle cfg c) = painted (drawSubtitle cfg c')"
  by (simp add: drawSubtitle_def Let_def fillText_def paint_def)



lemma drawSubtitle_alpha: "globalAlpha (drawSubtitle cfg c) = globalAlpha c"
  by (simp add: drawSubtitle_def Let_def fillText_def paint_def)



lemma drawFrame_analyser:
  "imageBitmaps env \<noteq> [] \<Longrightarrow> drawBackground (imageBitmaps env) t d ctx = Inr c1 \<Longrightarrow>
   analyser env = Some bins \<Longrightarrow>
     drawFrame env ctx t d arr =
       Inr (drawVisualizer (getByteFrequencyData bins arr)
              (drawSubtitle (config env) (drawTitle (config env) t (drawOverlay c1))),
            getByteFrequencyData bins arr)"
  by (simp add: drawFrame_def Let_def)

lemma layers_rel:
  assumes "globalAlpha b = 1" "globalAlpha b' = 1" "painted b = painted b'"
  shows "globalAlpha (drawSubtitle cfg (drawTitle cfg t (drawOverlay b))) = 1"
    and "globalAlpha (drawSubtitle cfg (drawTitle cfg t (drawOverlay b'))) = 1"
    and "painted (drawSubtitle cfg (drawTitle cfg t (drawOverlay b)))
       = painted (drawSubtitle cfg (drawTitle cfg t (drawOverlay b')))"
proof -
  have o: "globalAlpha (drawOverlay b) = 1" "globalAlpha (drawOverlay b') = 1"
    "painted (drawOverlay b) = painted (drawOverlay b')"
    using assms drawOverlay_rel [of b b'] by (simp_all add: drawOverlay_alpha)
  have t: "globalAlpha (drawTitle cfg t (drawOverlay b)) = 1"
    "globalAlpha (drawTitle cfg t (drawOverlay b')) = 1"
    "painted (drawTitle cfg t (drawOverlay b)) = painted (drawTitle cfg t (drawOverlay b'))"
    using drawTitle_rel [OF o] by simp_all
  show "globalAlpha (drawSubtitle cfg (drawTitle cfg t (drawOverlay b))) = 1"
    and "globalAlpha (drawSubtitle cfg (drawTitle cfg t (drawOverlay b'))) = 1"
    using t by (simp_all add: drawSubtitle_alpha)
  show "painted (drawSubtitle cfg (drawTitle cfg t (drawOverlay b)))
       = painted (drawSubtitle cfg (drawTitle cfg t (drawOverlay b')))"
    using drawSubtitle_rel [of "drawTitle cfg t (drawOverlay b)" "drawTitle cfg t (drawOverlay b')"] t
    by simp
qed


lemma bar_path_in_range:
  "i < length dataArray \<Longrightarrow>
     bar_path dataArray i =
       [RoundRect (50 + 8 * real i) (670 - real (unat (dataArray ! i)) / 255 * 150) 6
          (real (unat (dataArray ! i)) / 255 * 150) 4]"
  by (simp add: bar_path_def element_def visualizerX_def visualizerY_def HEIGHT_def barWidth_def
      gap_def maxBarHeight_def)

lemma bar_path_missing: "length dataArray \<le> i \<Longrightarrow> bar_path dataArray i = []"
  by (simp add: bar_path_def element_def)

lemma drawFrame_bars:
  assumes "imageBitmaps env \<noteq> []" and "0 \<le> t" and "analyser env = Some bins"
  shows "\<exists>c'. globalAlpha c' = 1 \<and>
           drawFrame env ctx t d arr =
             Inr (drawVisualizer (getByteFrequencyData bins arr) c', getByteFrequencyData bins arr)"
proof -
  obtain c1 where c1: "drawBackground (imageBitmaps env) t d ctx = Inr c1"
    using drawBackground_ok [OF assms(1,2)] by blast
  have "globalAlpha c1 = 1"
    using drawBackground_rel [of ctx ctx "imageBitmaps env" t d] c1 by auto
  then have "globalAlpha (drawSubtitle (config env) (drawTitle (config env) t (drawOverlay c1))) = 1"
    by (intro layers_rel(1) [of c1 c1]) simp_all
  then show ?thesis
    using drawFrame_analyser [OF assms(1) c1 assms(3)] by blast
qed

section \<open>Purity of a frame\<close>




section \<open>The visualizer bars\<close>

text \<open>
  Claim C7. The loop fills 40 paths, one per bar. For an index inside the array the path
  is one rounded rectangle of height \<open>value / 255 * 150\<close>, 6 wide, standing on
  \<open>y = 670\<close> at \<open>x = 50 + 8 i\<close>. For an index beyond the array the height is
  \<^verbatim>\<open>NaN\<close>, the path stays empty and the fill covers nothing, as for a bin of value 0.
  With images, a position that is not negative and an analyser, drawFrame does not throw
  for any array and ends with this loop.
\<close>

theorem visualizer_bars:
  "painted (drawVisualizer dataArray c) =
     painted c @ map (\<lambda>i. Fill (globalAlpha c) (Color ''#4E8cFF'') (bar_path dataArray i)) [0 ..< 40] \<and>
   (\<forall>i < 40. i < length dataArray \<longrightarrow>
      bar_path dataArray i =
        [RoundRect (50 + 8 * real i) (670 - real (unat (dataArray ! i)) / 255 * 150) 6
           (real (unat (dataArray ! i)) / 255 * 150) 4]) \<and>
   (\<forall>i < 40. length dataArray \<le> i \<longrightarrow>
      bar_path dataArray i = [] \<and> path_area (bar_path dataArray i) = 0) \<and>
   (\<forall>i < 40. i < length dataArray \<and> dataArray ! i = 0 \<longrightarrow>
      path_area (bar_path dataArray i) = 0) \<and>
   (imageBitmaps env \<noteq> [] \<and> 0 \<le> currentTime \<and> analyser env = Some bins \<longrightarrow>
      (\<exists>c'. globalAlpha c' = 1 \<and>
         drawFrame env ctx currentTime duration dataArray =
           Inr (drawVisualizer (getByteFrequencyData bins dataArray) c',
                getByteFrequencyData bins dataArray)))"
proof (intro conjI allI impI)
  show "painted (drawVisualizer dataArray c) =
     painted c @ map (\<lambda>i. Fill (globalAlpha c) (Color ''#4E8cFF'') (bar_path dataArray i)) [0 ..< 40]"
    by (rule drawVisualizer_painted)
next
  fix i assume "i < length dataArray"
  then show "bar_path dataArray i =
        [RoundRect (50 + 8 * real i) (670 - real (unat (dataArray ! i)) / 255 * 150) 6
           (real (unat (dataArray ! i)) / 255 * 150) 4]"
    by (rule bar_path_in_range)
next
  fix i assume "length dataArray \<le> i"
  then show "bar_path dataArray i = []" and "path_area (bar_path dataArray i) = 0"
    by (simp_all add: bar_path_missing path_area_def)
next
  fix i assume "i < length dataArray \<and> dataArray ! i = 0"
  then show "path_area (bar_path dataArray i) = 0"
    by (simp add: bar_path_in_range path_area_def)
next
  assume "imageBitmaps env \<noteq> [] \<and> 0 \<le> currentTime \<and> analyser env = Some bins"
  then show "\<exists>c'. globalAlpha c' = 1 \<and>
         drawFrame env ctx currentTime duration dataArray =
           Inr (drawVisualizer (getByteFrequencyData bins dataArray) c',
                getByteFrequencyData bins dataArray)"
    using drawFrame_bars [of env currentTime bins ctx duration dataArray] by simp
qed


theorem visualizer_bars_witness:
  "bar_path [255, 0] 0 = [RoundRect 50 520 6 150 4] \<and>
   bar_path [255, 0] 1 = [RoundRect 58 670 6 0 4] \<and>
   path_area (bar_path [255, 0] 1) = 0 \<and>
   bar_path [255, 0] 2 = [] \<and> path_area (bar_path [255, 0] 2) = 0 \<and>
   (\<exists>c'. globalAlpha c' = 1 \<and>
      drawFrame
        \<lparr>imageBitmaps = [\<lparr>width = 1920, height = 1080, content = 1\<rparr>],
         analyser = Some [255, 0],
         config = \<lparr>title = ''T'', subtitle = ''S'', fontFamily = sans\<rparr>\<rparr>
        fresh_context 5 (Some 10) [7, 7]
      = Inr (drawVisualizer [255, 0] c', [255, 0]))"
proof -
  let ?env = "\<lparr>imageBitmaps = [\<lparr>width = 1920, height = 1080, content = 1\<rparr>],
         analyser = Some [255, 0],
         config = \<lparr>title = ''T'', subtitle = ''S'', fontFamily = sans\<rparr>\<rparr>"
  note v = visualizer_bars [where dataArray = "[255, 0]" and c = fresh_context and env = ?env
      and currentTime = 5 and bins = "[255, 0]" and ctx = fresh_context and duration = "Some 10"]
  have a: "bar_path [255, 0] 0 = [RoundRect 50 520 6 150 4]"
    using v by simp
  have b: "bar_path [255, 0] 1 = [RoundRect 58 670 6 0 4]"
    using v by simp
  have c: "path_area (bar_path [255, 0] 1) = 0"
    using v by (simp add: path_area_def)
  have d: "bar_path [255, 0] 2 = [] \<and> path_area (bar_path [255, 0] 2) = 0"
    using v by (simp add: path_area_def)
  have "getByteFrequencyData [255, 0] [7, 7] = [255, 0]"
    by (simp add: getByteFrequencyData_def)
  then have e: "\<exists>c'. globalAlpha c' = 1 \<and>
      drawFrame ?env fresh_context 5 (Some 10) [7, 7] = Inr (drawVisualizer [255, 0] c', [255, 0])"
    using visualizer_bars [where dataArray = "[7, 7]" and c = fresh_context and env = ?env
      and currentTime = 5 and bins = "[255, 0]" and ctx = fresh_context and duration = "Some 10"]
    by simp
  show ?thesis
    using a b c d e by blast
qed

section \<open>The background layer\<close>

lemma drawImageProp_painted:
  "painted (drawImageProp img 0 0 WIDTH HEIGHT c) = painted c @ cover_ops (globalAlpha c) img"
  "globalAlpha (drawImageProp img 0 0 WIDTH HEIGHT c) = globalAlpha c"
  by (simp_all add: drawImageProp_def cover_ops_def drawImage_def paint_def split: prod.split)

lemma set_globalAlpha_alpha:
  "globalAlpha (set_globalAlpha v c) = (if 0 \<le> v \<and> v \<le> 1 then v else globalAlpha c)"
  by (simp add: set_globalAlpha_def)

text \<open>
  What layer 1 paints: the current image at full opacity and, while crossfading, the next
  image over it. The opacity of the next image is \<open>fadeProgress\<close> up to 1; a larger value
  is ignored by the setter and the image is painted opaque.
\<close>

lemma drawBackground_painted:
  assumes "element imgs (currentIndex t d (length imgs)) = Some cur"
    and "element imgs (nextIndex t d (length imgs)) = Some nxt"
  shows "\<exists>c'. drawBackground imgs t d c = Inr c' \<and>
           painted c' =
             painted c @ cover_ops 1 cur @
               (if crossfading t d (length imgs)
                then cover_ops (min 1 (fadeProgress t d (length imgs))) nxt else [])"
proof (cases "crossfading t d (length imgs)")
  case False
  have "drawBackground imgs t d c =
       Inr (set_globalAlpha 1 (drawImageProp cur 0 0 WIDTH HEIGHT (set_globalAlpha 1 c)))"
    using assms(1) False by (simp add: drawBackground_def Let_def)
  moreover have "painted (set_globalAlpha 1 (drawImageProp cur 0 0 WIDTH HEIGHT (set_globalAlpha 1 c)))
      = painted c @ cover_ops 1 cur"
    by (simp add: set_globalAlpha_painted drawImageProp_painted set_globalAlpha_alpha)
  ultimately show ?thesis
    using False by simp
next
  case True
  define fp where "fp = fadeProgress t d (length imgs)"
  have "0 < fp"
    using True by (simp add: crossfading_def fadeProgress_def fadeDuration_def fp_def)
  define c2 where "c2 = drawImageProp cur 0 0 WIDTH HEIGHT (set_globalAlpha 1 c)"
  have c2: "painted c2 = painted c @ cover_ops 1 cur" "globalAlpha c2 = 1"
    by (simp_all add: c2_def set_globalAlpha_painted drawImageProp_painted set_globalAlpha_alpha)
  have a3: "globalAlpha (set_globalAlpha fp c2) = min 1 fp"
    using \<open>0 < fp\<close> c2 by (simp add: set_globalAlpha_alpha min_def)
  have "drawBackground imgs t d c =
       Inr (set_globalAlpha 1 (drawImageProp nxt 0 0 WIDTH HEIGHT (set_globalAlpha fp c2)))"
    using assms True by (simp add: drawBackground_def Let_def fp_def c2_def)
  moreover have "painted (set_globalAlpha 1 (drawImageProp nxt 0 0 WIDTH HEIGHT (set_globalAlpha fp c2)))
      = painted c @ cover_ops 1 cur @ cover_ops (min 1 fp) nxt"
    by (simp add: set_globalAlpha_painted drawImageProp_painted a3 c2)
  ultimately show ?thesis
    using True by (simp add: fp_def)
qed

section \<open>Export\<close>

lemma export_draw_no_images: "imageBitmaps env = [] \<Longrightarrow> export_draw env audio ctx = Inr ctx"
  by (simp add: export_draw_def drawFrame_def split: option.split)

lemma checkEnd_no_images:
  "imageBitmaps env = [] \<Longrightarrow>
     fst (snd (checkEnd env fs ctx)) = ctx \<and>
     (snd (snd (checkEnd env fs ctx)) \<longleftrightarrow> (\<exists>a \<in> set fs. audio_ended a))"
  by (induction fs) (auto simp: export_draw_no_images split: prod.split)

lemma first_frame_error_no_images:
  "imageBitmaps env = [] \<Longrightarrow> first_frame_error env fs ctx = None"
  by (simp add: first_frame_error_def export_draw_no_images split: list.split)

lemma record_export_no_images:
  assumes "imageBitmaps (render s) = []"
  shows "run_surface (record_export s b ctx before) = painted ctx"
    and "playRejects b = None \<Longrightarrow> \<exists>a \<in> set (frames b). audio_ended a \<Longrightarrow>
         run_result (record_export s b ctx before) =
           Resolved (Blob (filter (\<lambda>size. size > 0) (chunkSizes b)) (mimeType b))"
proof -
  obtain evs ctx' stopped where c: "checkEnd (render s) (frames b) ctx = (evs, ctx', stopped)"
    by (cases "checkEnd (render s) (frames b) ctx") auto
  have ctx': "ctx' = ctx" and stopped: "stopped \<longleftrightarrow> (\<exists>a \<in> set (frames b). audio_ended a)"
    using checkEnd_no_images [OF assms, of "frames b" ctx] c by simp_all
  show "run_surface (record_export s b ctx before) = painted ctx"
    by (simp add: record_export_def c ctx' split: option.split)
  show "playRejects b = None \<Longrightarrow> \<exists>a \<in> set (frames b). audio_ended a \<Longrightarrow>
         run_result (record_export s b ctx before) =
           Resolved (Blob (filter (\<lambda>size. size > 0) (chunkSizes b)) (mimeType b))"
    using stopped by (simp add: record_export_def c first_frame_error_no_images [OF assms])
qed

lemma record_export_events:
  "x \<in> set before \<Longrightarrow> x \<in> set (run_events (record_export s b ctx before))"
  by (auto simp: record_export_def split: option.split prod.split)

text \<open>
  Claim C8, as amended. startExport does not look at the images. Without a canvas or an
  audio element it rejects with the error "Not ready" before anything is constructed.
  With both it constructs the capture stream whatever the number of images. With no image
  the frames of the export draw nothing, and when a recorder can be constructed, playback
  starts and the audio reaches its end, the export resolves with the recorded blob.
\<close>

theorem startExport_no_image_check:
  "(canvasRef s = None \<or> audioRef s = None \<longrightarrow>
      run_result (startExport s b) = Rejected (Error ''Not ready'') \<and>
      run_events (startExport s b) = []) \<and>
   (canvasRef s \<noteq> None \<and> audioRef s \<noteq> None \<longrightarrow>
      CanvasCaptureStream 30 \<in> set (run_events (startExport s b))) \<and>
   (canvasRef s = Some ctx \<and> audioRef s \<noteq> None \<and> imageBitmaps (render s) = [] \<longrightarrow>
      run_surface (startExport s b) = painted ctx) \<and>
   (canvasRef s = Some ctx \<and> audioRef s \<noteq> None \<and> imageBitmaps (render s) = [] \<and>
    (recorderWithMime b = None \<or> recorderDefault b = None) \<and> playRejects b = None \<and>
    (\<exists>a \<in> set (frames b). audio_ended a) \<longrightarrow>
      run_result (startExport s b) =
        Resolved (Blob (filter (\<lambda>size. size > 0) (chunkSizes b)) (mimeType b)))"
proof (intro conjI impI)
  assume "canvasRef s = None \<or> audioRef s = None"
  then show "run_result (startExport s b) = Rejected (Error ''Not ready'')"
    and "run_events (startExport s b) = []"
    by (auto simp: startExport_def split: option.split)
next
  assume "canvasRef s \<noteq> None \<and> audioRef s \<noteq> None"
  then obtain ctx' audio where r: "canvasRef s = Some ctx'" "audioRef s = Some audio"
    by auto
  show "CanvasCaptureStream 30 \<in> set (run_events (startExport s b))"
  proof (cases "recorderWithMime b")
    case None
    then show ?thesis
      by (simp add: startExport_def r Let_def record_export_events)
  next
    case (Some e)
    then show ?thesis
      by (cases "recorderDefault b") (simp_all add: startExport_def r Let_def record_export_events)
  qed
next
  assume h: "canvasRef s = Some ctx \<and> audioRef s \<noteq> None \<and> imageBitmaps (render s) = []"
  then obtain audio where r: "canvasRef s = Some ctx" "audioRef s = Some audio"
    by auto
  from h have n: "imageBitmaps (render s) = []"
    by simp
  show "run_surface (startExport s b) = painted ctx"
    by (simp add: startExport_def r Let_def record_export_no_images(1) [OF n] split: option.split)
next
  assume h: "canvasRef s = Some ctx \<and> audioRef s \<noteq> None \<and> imageBitmaps (render s) = [] \<and>
    (recorderWithMime b = None \<or> recorderDefault b = None) \<and> playRejects b = None \<and>
    (\<exists>a \<in> set (frames b). audio_ended a)"
  then obtain audio where r: "canvasRef s = Some ctx" "audioRef s = Some audio"
    by auto
  from h have n: "imageBitmaps (render s) = []" and p: "playRejects b = None"
    and f: "\<exists>a \<in> set (frames b). audio_ended a"
    and c: "recorderWithMime b = None \<or> recorderDefault b = None"
    by simp_all
  note res = record_export_no_images(2) [OF n p f]
  show "run_result (startExport s b) =
        Resolved (Blob (filter (\<lambda>size. size > 0) (chunkSizes b)) (mimeType b))"
    using c by (auto simp: startExport_def r Let_def res split: option.split)
qed


theorem startExport_no_image_check_witness:
  "run_surface (startExport
     \<lparr>canvasRef = Some fresh_context,
        audioRef = Some \<lparr>audio_currentTime = 3, audio_duration = Some 10, audio_ended = False\<rparr>,
        requestRef = Some 7,
        render = \<lparr>imageBitmaps = [], analyser = Some (replicate 128 0),
                  config = \<lparr>title = ''T'', subtitle = ''S'', fontFamily = sans\<rparr>\<rparr>\<rparr>
     \<lparr>audioTracks = Some 1, mp4Supported = False, webmSupported = True,
        recorderWithMime = None, recorderDefault = None, playRejects = None,
        frames = [\<lparr>audio_currentTime = 0, audio_duration = Some 10, audio_ended = False\<rparr>,
                  \<lparr>audio_currentTime = 5, audio_duration = Some 10, audio_ended = False\<rparr>,
                  \<lparr>audio_currentTime = 10, audio_duration = Some 10, audio_ended = True\<rparr>],
        chunkSizes = [1000, 0, 2000]\<rparr>) = [] \<and>
   run_result (startExport
     \<lparr>canvasRef = Some fresh_context,
        audioRef = Some \<lparr>audio_currentTime = 3, audio_duration = Some 10, audio_ended = False\<rparr>,
        requestRef = Some 7,
        render = \<lparr>imageBitmaps = [], analyser = Some (replicate 128 0),
                  config = \<lparr>title = ''T'', subtitle = ''S'', fontFamily = sans\<rparr>\<rparr>\<rparr>
     \<lparr>audioTracks = Some 1, mp4Supported = False, webmSupported = True,
        recorderWithMime = None, recorderDefault = None, playRejects = None,
        frames = [\<lparr>audio_currentTime = 0, audio_duration = Some 10, audio_ended = False\<rparr>,
                  \<lparr>audio_currentTime = 5, audio_duration = Some 10, audio_ended = False\<rparr>,
                  \<lparr>audio_currentTime = 10, audio_duration = Some 10, audio_ended = True\<rparr>],
        chunkSizes = [1000, 0, 2000]\<rparr>) = Resolved (Blob [1000, 2000] ''video/webm'') \<and>
   CanvasCaptureStream 30 \<in> set (run_events (startExport
     \<lparr>canvasRef = Some fresh_context,
        audioRef = Some \<lparr>audio_currentTime = 3, audio_duration = Some 10, audio_ended = False\<rparr>,
        requestRef = Some 7,
        render = \<lparr>imageBitmaps = [], analyser = Some (replicate 128 0),
                  config = \<lparr>title = ''T'', subtitle = ''S'', fontFamily = sans\<rparr>\<rparr>\<rparr>
     \<lparr>audioTracks = Some 1, mp4Supported = False, webmSupported = True,
        recorderWithMime = None, recorderDefault = None, playRejects = None,
        frames = [\<lparr>audio_currentTime = 0, audio_duration = Some 10, audio_ended = False\<rparr>,
                  \<lparr>audio_currentTime = 5, audio_duration = Some 10, audio_ended = False\<rparr>,
                  \<lparr>audio_currentTime = 10, audio_duration = Some 10, audio_ended = True\<rparr>],
        chunkSizes = [1000, 0, 2000]\<rparr>)) \<and>
   run_result (startExport
     (\<lparr>canvasRef = Some fresh_context,
        audioRef = Some \<lparr>audio_currentTime = 3, audio_duration = Some 10, audio_ended = False\<rparr>,
        requestRef = Some 7,
        render = \<lparr>imageBitmaps = [], analyser = Some (replicate 128 0),
                  config = \<lparr>title = ''T'', subtitle = ''S'', fontFamily = sans\<rparr>\<rparr>\<rparr>\<lparr>audioRef := None\<rparr>)
     \<lparr>audioTracks = Some 1, mp4Supported = False, webmSupported = True,
        recorderWithMime = None, recorderDefault = None, playRejects = None,
        frames = [\<lparr>audio_currentTime = 0, audio_duration = Some 10, audio_ended = False\<rparr>,
                  \<lparr>audio_currentTime = 5, audio_duration = Some 10, audio_ended = False\<rparr>,
                  \<lparr>audio_currentTime = 10, audio_duration = Some 10, audio_ended = True\<rparr>],
        chunkSizes = [1000, 0, 2000]\<rparr>) = Rejected (Error ''Not ready'')"
  using startExport_no_image_check [where ctx = fresh_context and b = "\<lparr>audioTracks = Some 1, mp4Supported = False, webmSupported = True,
        recorderWithMime = None, recorderDefault = None, playRejects = None,
        frames = [\<lparr>audio_currentTime = 0, audio_duration = Some 10, audio_ended = False\<rparr>,
                  \<lparr>audio_currentTime = 5, audio_duration = Some 10, audio_ended = False\<rparr>,
                  \<lparr>audio_currentTime = 10, audio_duration = Some 10, audio_ended = True\<rparr>],
        chunkSizes = [1000, 0, 2000]\<rparr>"
      and s = "\<lparr>canvasRef = Some fresh_context,
        audioRef = Some \<lparr>audio_currentTime = 3, audio_duration = Some 10, audio_ended = False\<rparr>,
        requestRef = Some 7,
        render = \<lparr>imageBitmaps = [], analyser = Some (replicate 128 0),
                  config = \<lparr>title = ''T'', subtitle = ''S'', fontFamily = sans\<rparr>\<rparr>\<rparr>"]
    startExport_no_image_check [where ctx = fresh_context and b = "\<lparr>audioTracks = Some 1, mp4Supported = False, webmSupported = True,
        recorderWithMime = None, recorderDefault = None, playRejects = None,
        frames = [\<lparr>audio_currentTime = 0, audio_duration = Some 10, audio_ended = False\<rparr>,
                  \<lparr>audio_currentTime = 5, audio_duration = Some 10, audio_ended = False\<rparr>,
                  \<lparr>audio_currentTime = 10, audio_duration = Some 10, audio_ended = True\<rparr>],
        chunkSizes = [1000, 0, 2000]\<rparr>"
      and s = "\<lparr>canvasRef = Some fresh_context,
        audioRef = Some \<lparr>audio_currentTime = 3, audio_duration = Some 10, audio_ended = False\<rparr>,
        requestRef = Some 7,
        render = \<lparr>imageBitmaps = [], analyser = Some (replicate 128 0),
                  config = \<lparr>title = ''T'', subtitle = ''S'', fontFamily = sans\<rparr>\<rparr>\<rparr>\<lparr>audioRef := None\<rparr>"]
  by (simp add: mimeType_def fresh_context_def)

text \<open>
  Claim C8 as stated fails: with no image, a canvas and an audio element, the export
  builds the capture stream and the recorder, records while every frame draws nothing,
  and resolves with the blob.
\<close>

theorem startExport_zero_images_counterexample:
  "startExport
     \<lparr>canvasRef = Some fresh_context,
        audioRef = Some \<lparr>audio_currentTime = 3, audio_duration = Some 10, audio_ended = False\<rparr>,
        requestRef = Some 7,
        render = \<lparr>imageBitmaps = [], analyser = Some (replicate 128 0),
                  config = \<lparr>title = ''T'', subtitle = ''S'', fontFamily = sans\<rparr>\<rparr>\<rparr>
     \<lparr>audioTracks = Some 1, mp4Supported = False, webmSupported = True,
        recorderWithMime = None, recorderDefault = None, playRejects = None,
        frames = [\<lparr>audio_currentTime = 0, audio_duration = Some 10, audio_ended = False\<rparr>,
                  \<lparr>audio_currentTime = 5, audio_duration = Some 10, audio_ended = False\<rparr>,
                  \<lparr>audio_currentTime = 10, audio_duration = Some 10, audio_ended = True\<rparr>],
        chunkSizes = [1000, 0, 2000]\<rparr>
   = \<lparr>run_events =
        [CancelAnimationFrame 7, Pause, Seek 0, CanvasCaptureStream 30, AudioCaptureStream,
         AddTrack, NewMediaRecorder (Some ''video/webm''), Play, RecorderStart,
         ExportProgress 0, RequestAnimationFrame, ExportProgress 50, RequestAnimationFrame,
         RecorderStop, Pause, Seek 0],
      run_surface = [],
      run_result = Resolved (Blob [1000, 2000] ''video/webm'')\<rparr>"
  by (simp add: startExport_def record_export_def first_frame_error_def export_draw_def
      export_progress_def drawFrame_def mimeType_def fresh_context_def Let_def)

section \<open>Metadata service\<close>

text \<open>
  Claim C9. For every title and subtitle, when the call of the metadata service rejects
  or throws (or anything else in the try block throws), generateVideoMetadata resolves
  with the fallback object: the description "Check out my new video: <title>!" and the
  hashtags "#musicvideo" and "#newupload". It never rejects.
\<close>

theorem generateVideoMetadata_fallback:
  "(generateContent svc ''gemini-2.5-flash'' (metadata_prompt title' subtitle') = Inl e \<longrightarrow>
      generateVideoMetadata svc title' subtitle' = Inr (metadata_fallback title')) \<and>
   (generateVideoMetadata_try svc title' subtitle' = Inl e \<longrightarrow>
      generateVideoMetadata svc title' subtitle' = Inr (metadata_fallback title')) \<and>
   generateVideoMetadata svc title' subtitle' \<noteq> Inl e' \<and>
   metadata_fallback title' =
     JObject
       [(''description'', JString (''Check out my new video: '' @ title' @ ''!'')),
        (''hashtags'', JArray [JString ''#musicvideo'', JString ''#newupload''])]"
  by (auto simp: generateVideoMetadata_def generateVideoMetadata_try_def metadata_fallback_def
      split: sum.split)

theorem generateVideoMetadata_fallback_witness:
  "generateVideoMetadata
     \<lparr>API_KEY = Some ''key'', generateContent = (\<lambda>model prompt. Inl (Error ''503'')),
      JSON_parse = (\<lambda>text. Inl (SyntaxError ''Unexpected token''))\<rparr> ''Song'' ''Live''
   = Inr (JObject
       [(''description'', JString ''Check out my new video: Song!''),
        (''hashtags'', JArray [JString ''#musicvideo'', JString ''#newupload''])])"
  using generateVideoMetadata_fallback [where title' = "''Song''" and subtitle' = "''Live''"
      and e = "Error ''503''"
      and svc = "\<lparr>API_KEY = Some ''key'', generateContent = (\<lambda>model prompt. Inl (Error ''503'')),
      JSON_parse = (\<lambda>text. Inl (SyntaxError ''Unexpected token''))\<rparr>"]
  by simp

end
